theory Spec2Isabelle
  imports Main
begin

section \<open>Python values\<close>

text \<open>
  The values that travel through the two scripts: what \<^verbatim>\<open>json.loads\<close> produces and
  what \<^verbatim>\<open>json.dumps\<close> accepts. A Python \<^verbatim>\<open>dict\<close> with string keys is an association
  list in insertion order, read with \<^const>\<open>map_of\<close>. Floating point numbers are not
  represented.
\<close>

datatype pyval =
    PNone
  | PBool bool
  | PInt int
  | PStr string
  | PList "pyval list"
  | PDict "(string \<times> pyval) list"

type_synonym pydict = "(string \<times> pyval) list"

text \<open>Truth value of an object, as \<^verbatim>\<open>or\<close> and \<^verbatim>\<open>if\<close> test it.\<close>

fun truthy :: "pyval \<Rightarrow> bool" where
  "truthy PNone = False"
| "truthy (PBool b) = b"
| "truthy (PInt i) = (i \<noteq> 0)"
| "truthy (PStr s) = (s \<noteq> [])"
| "truthy (PList xs) = (xs \<noteq> [])"
| "truthy (PDict kvs) = (kvs \<noteq> [])"



subsection \<open>Substring test\<close>

text \<open>\<^verbatim>\<open>sub in s\<close> on two strings: \<open>sub\<close> occurs in \<open>s\<close> as a contiguous block.\<close>

fun startswith :: "string \<Rightarrow> string \<Rightarrow> bool" where
  "startswith s [] = True"
| "startswith [] (c # sub) = False"
| "startswith (d # s) (c # sub) = (d = c \<and> startswith s sub)"

fun str_in :: "string \<Rightarrow> string \<Rightarrow> bool" where
  "str_in sub [] = startswith [] sub"
| "str_in sub (d # s) = (startswith (d # s) sub \<or> str_in sub s)"

section \<open>terminal-mcp.py: the terminal server\<close>

text \<open>
  The object state of \<^verbatim>\<open>TerminalMCPServer\<close>: the tool table set up by \<^verbatim>\<open>__init__\<close>.
  Neither method assigns to it.
\<close>

record terminal_mcp_server =
  tools :: pydict

definition init :: terminal_mcp_server where
  "init = \<lparr>tools =
     [(''execute_command'', PDict
        [(''description'', PStr ''Execute a terminal command''),
         (''parameters'', PDict
            [(''command'', PDict [(''type'', PStr ''string''),
                                  (''description'', PStr ''Command to execute'')]),
             (''cwd'', PDict [(''type'', PStr ''string''),
                              (''description'', PStr ''Working directory'')])])]),
      (''analyze_command'', PDict
        [(''description'', PStr ''Analyze a command for suggestions and explanations''),
         (''parameters'', PDict
            [(''command'', PDict [(''type'', PStr ''string''),
                                  (''description'', PStr ''Command to analyze'')]),
             (''context'', PDict [(''type'', PStr ''object''),
                                  (''description'', PStr ''Terminal context'')])])])]\<rparr>"

subsection \<open>analyze_command\<close>

text \<open>
  Lines 58 to 64: the list \<^verbatim>\<open>suggestions\<close> starts empty and one \<^verbatim>\<open>if/elif/elif\<close> statement
  appends to it.
\<close>

definition suggest :: "string \<Rightarrow> string list" where
  "suggest command =
     (if str_in ''git'' command \<and> str_in ''push'' command then
        [] @ [''Consider using 'git push --force-with-lease' for safer force pushes'']
      else if str_in ''rm'' command \<and> str_in ''-rf'' command then
        [] @ [''Warning: Destructive command detected'']
      else if str_in ''sudo'' command then
        [] @ [''Consider if sudo is really necessary'']
      else [])"

definition analyze_command :: "terminal_mcp_server \<Rightarrow> string \<Rightarrow> pyval \<Rightarrow> pydict" where
  "analyze_command self command context =
     (let suggestions = suggest command in
      [(''command'', PStr command),
       (''type'', PStr ''analysis''),
       (''suggestions'', PList (map PStr suggestions)),
       (''risk_level'', PStr (if length suggestions = 0 then ''low'' else ''medium''))])"

subsection \<open>execute_command\<close>

text \<open>
  The exceptions the \<^verbatim>\<open>try\<close> statement of \<^verbatim>\<open>execute_command\<close> tells apart:
  \<^verbatim>\<open>subprocess.TimeoutExpired\<close>, and any other exception derived from \<^verbatim>\<open>Exception\<close>,
  carrying \<^verbatim>\<open>str(e)\<close>. Interpreter exits and keyboard interrupts, which are not derived
  from \<^verbatim>\<open>Exception\<close> and do not depend on the arguments, are not represented.
\<close>

datatype exn = TimeoutExpired | Exception string

text \<open>
  The bytes captured from one output stream of the child, as \<^verbatim>\<open>text=True\<close> reads them:
  text in the encoding of the locale, or bytes that are no such text, with the message of
  the \<^verbatim>\<open>UnicodeDecodeError\<close> that decoding them raises.
\<close>

datatype stream = Text string | Undecodable string

text \<open>
  A started child process, with times in the unit of the \<^verbatim>\<open>timeout\<close> argument: when the
  shell exits (\<open>None\<close>: it never exits by itself), when the last process that holds its
  output pipes closes them (a background job of the command can hold them after the shell
  has exited; \<open>None\<close>: never), the exit status of the shell, and what the two pipes
  delivered.
\<close>

record child =
  runtime :: "nat option"
  pipes_closed :: "nat option"
  returncode :: int
  stdout :: stream
  stderr :: stream

text \<open>The \<^verbatim>\<open>CompletedProcess\<close> that \<^verbatim>\<open>subprocess.run\<close> returns: exit status and the two texts.\<close>

datatype completed_process = CompletedProcess int string string

text \<open>
  The operating system, as far as \<^verbatim>\<open>execute_command\<close> uses it. \<open>getcwd\<close> is the outcome of
  \<^verbatim>\<open>os.getcwd()\<close>: the directory, or the message of the \<^verbatim>\<open>OSError\<close> it raises. \<open>popen args cwd\<close>
  is what happens when the shell is asked to run \<open>args\<close> in \<open>cwd\<close>: \<open>Inl msg\<close> when the launch
  raises an exception with message \<open>msg\<close> (the shell cannot be started, the directory is
  not usable, an argument has the wrong type), otherwise the child.
\<close>

record os_env =
  getcwd :: "string + string"
  popen :: "pyval \<Rightarrow> pyval \<Rightarrow> string + child"

text \<open>
  \<^verbatim>\<open>subprocess.run(args, shell=True, cwd=cwd, capture_output=True, text=True, timeout=t)\<close>:
  both pipes are read to their end and the child is waited for, during \<open>t\<close> units in all;
  when the pipes are still open or the child has not exited by then, the child is killed
  and \<^verbatim>\<open>TimeoutExpired\<close> is raised. Otherwise the captured bytes are decoded, standard output
  first, and a \<^verbatim>\<open>UnicodeDecodeError\<close> leaves the call.
\<close>

definition exceeds :: "child \<Rightarrow> nat \<Rightarrow> bool" where
  "exceeds p timeout =
     ((case runtime p of None \<Rightarrow> True | Some t \<Rightarrow> timeout < t)
      \<or> (case pipes_closed p of None \<Rightarrow> True | Some u \<Rightarrow> timeout < u))"

definition subprocess_run ::
  "os_env \<Rightarrow> pyval \<Rightarrow> pyval \<Rightarrow> nat \<Rightarrow> exn + completed_process" where
  "subprocess_run env args cwd timeout =
     (case popen env args cwd of
        Inl msg \<Rightarrow> Inl (Exception msg)
      | Inr p \<Rightarrow>
          if exceeds p timeout then Inl TimeoutExpired
          else (case stdout p of
                  Undecodable msg \<Rightarrow> Inl (Exception msg)
                | Text out \<Rightarrow>
                    (case stderr p of
                       Undecodable msg \<Rightarrow> Inl (Exception msg)
                     | Text err \<Rightarrow> Inr (CompletedProcess (returncode p) out err))))"

text \<open>Line 38, the expression \<^verbatim>\<open>cwd or os.getcwd()\<close>.\<close>

definition working_directory :: "os_env \<Rightarrow> pyval \<Rightarrow> exn + pyval" where
  "working_directory env cwd =
     (if truthy cwd then Inr cwd
      else (case getcwd env of
              Inl msg \<Rightarrow> Inl (Exception msg)
            | Inr d \<Rightarrow> Inr (PStr d)))"

text \<open>Lines 35 to 49, the body of the \<^verbatim>\<open>try\<close>; \<open>Inl\<close> is an exception leaving it.\<close>

definition execute_try :: "os_env \<Rightarrow> pyval \<Rightarrow> pyval \<Rightarrow> exn + pydict" where
  "execute_try env command cwd =
     (case working_directory env cwd of
        Inl e \<Rightarrow> Inl e
      | Inr dir \<Rightarrow>
          (case subprocess_run env command dir 30 of
             Inl e \<Rightarrow> Inl e
           | Inr (CompletedProcess result_returncode result_stdout result_stderr) \<Rightarrow>
               Inr [(''success'', PBool (result_returncode = 0)),
                    (''output'', PStr result_stdout),
                    (''error'', PStr result_stderr),
                    (''return_code'', PInt result_returncode)]))"

text \<open>The whole method, with the two \<^verbatim>\<open>except\<close> clauses of lines 50 to 53.\<close>

definition execute_command ::
  "terminal_mcp_server \<Rightarrow> os_env \<Rightarrow> pyval \<Rightarrow> pyval \<Rightarrow> exn + pydict" where
  "execute_command self env command cwd =
     (case execute_try env command cwd of
        Inr r \<Rightarrow> Inr r
      | Inl TimeoutExpired \<Rightarrow>
          Inr [(''success'', PBool False), (''error'', PStr ''Command timed out'')]
      | Inl (Exception e) \<Rightarrow>
          Inr [(''success'', PBool False), (''error'', PStr e)])"

subsection \<open>MCPHandler.do_POST\<close>





subsection \<open>The analyzer the specification describes\<close>

text \<open>
  The rule table of the specification, for comparison with \<^const>\<open>suggest\<close>: three
  registered rules, each a matcher on the command with its suggestion text, and an
  evaluation that collects the text of every rule that matches, in registration order.
\<close>

definition spec_rules :: "((string \<Rightarrow> bool) \<times> string) list" where
  "spec_rules =
     [(\<lambda>c. str_in ''git'' c \<and> str_in ''push'' c,
       ''Consider using 'git push --force-with-lease' for safer force pushes''),
      (\<lambda>c. str_in ''rm'' c \<and> str_in ''-rf'' c,
       ''Warning: Destructive command detected''),
      (\<lambda>c. str_in ''sudo'' c,
       ''Consider if sudo is really necessary'')]"

definition spec_all_matching :: "string \<Rightarrow> string list" where
  "spec_all_matching command = map snd (filter (\<lambda>r. fst r command) spec_rules)"

section \<open>check_mcp_servers.py: the status checker\<close>

record mcp_server =
  name :: string
  port :: nat

definition MCP_SERVERS :: "mcp_server list" where
  "MCP_SERVERS =
     [\<lparr>name = ''Memory'', port = 13000\<rparr>,
      \<lparr>name = ''Filesystem'', port = 13001\<rparr>,
      \<lparr>name = ''Terminal'', port = 13002\<rparr>,
      \<lparr>name = ''Kubectl'', port = 13003\<rparr>,
      \<lparr>name = ''Helm'', port = 13004\<rparr>,
      \<lparr>name = ''Minikube'', port = 13005\<rparr>]"

text \<open>
  The exceptions the \<^verbatim>\<open>except\<close> clauses of \<^verbatim>\<open>check_server\<close> tell apart, in their order:
  \<^verbatim>\<open>ConnectionRefusedError\<close>, \<^verbatim>\<open>socket.timeout\<close>, and any other \<^verbatim>\<open>Exception\<close> with its
  message.
\<close>

datatype net_exn = ConnectionRefusedError | SocketTimeout | OtherError string

text \<open>
  Line 36, reading and parsing the body of a 200 response: the parsed value, or a
  \<^verbatim>\<open>JSONDecodeError\<close> or \<^verbatim>\<open>UnicodeDecodeError\<close>, or another exception while reading.
\<close>

datatype read_result = Body pyval | NotJson | ReadFails net_exn

text \<open>
  Lines 30 to 32, the request to one port: an exception, or a response with its status,
  its reason phrase and what reading its body would give.
\<close>

datatype http_attempt =
    RequestFails net_exn
  | Responds nat string read_result

text \<open>Decimal digits of a natural number, as an f-string formats it.\<close>

definition digit :: "nat \<Rightarrow> char" where
  "digit n = ''0123456789'' ! n"

function str_nat :: "nat \<Rightarrow> string" where
  "str_nat n = (if n < 10 then [digit n] else str_nat (n div 10) @ [digit (n mod 10)])"
  by pat_completeness auto
termination
  by (relation "measure id") auto

declare str_nat.simps [simp del]

text \<open>Lines 30 to 54, the body of the \<^verbatim>\<open>try\<close>; \<open>Inl\<close> is an exception leaving it.\<close>

definition check_try :: "mcp_server \<Rightarrow> http_attempt \<Rightarrow> net_exn + pydict" where
  "check_try server attempt =
     (case attempt of
        RequestFails e \<Rightarrow> Inl e
      | Responds status reason body \<Rightarrow>
          if status = 200 then
            (case body of
               Body data \<Rightarrow>
                 Inr [(''name'', PStr (name server)),
                      (''status'', PStr ''running''),
                      (''status_code'', PInt (int status)),
                      (''response'', data)]
             | NotJson \<Rightarrow>
                 Inr [(''name'', PStr (name server)),
                      (''status'', PStr ''error''),
                      (''error'', PStr ''Invalid JSON response'')]
             | ReadFails e \<Rightarrow> Inl e)
          else
            Inr [(''name'', PStr (name server)),
                 (''status'', PStr ''error''),
                 (''error'', PStr (''HTTP '' @ str_nat status @ '' '' @ reason))])"

text \<open>
  \<^verbatim>\<open>check_server\<close>, with its three \<^verbatim>\<open>except\<close> clauses; \<open>net\<close> gives, for a port of
  localhost, the outcome of the request. Closing the connection in \<^verbatim>\<open>finally\<close> changes
  nothing that is returned.
\<close>

definition check_server :: "(nat \<Rightarrow> http_attempt) \<Rightarrow> mcp_server \<Rightarrow> net_exn + pydict" where
  "check_server net server =
     (case check_try server (net (port server)) of
        Inr r \<Rightarrow> Inr r
      | Inl ConnectionRefusedError \<Rightarrow>
          Inr [(''name'', PStr (name server)),
               (''status'', PStr ''down''),
               (''error'', PStr ''Connection refused'')]
      | Inl SocketTimeout \<Rightarrow>
          Inr [(''name'', PStr (name server)),
               (''status'', PStr ''timeout''),
               (''error'', PStr ''Request timed out'')]
      | Inl (OtherError e) \<Rightarrow>
          Inr [(''name'', PStr (name server)),
               (''status'', PStr ''error''),
               (''error'', PStr e)])"

text \<open>
  \<^verbatim>\<open>list(executor.map(f, xs))\<close>: the results in the order of \<open>xs\<close>; an exception raised by
  one call is raised again when its result is collected, and no list is built.
\<close>

fun gather :: "('e + 'a) list \<Rightarrow> 'e + 'a list" where
  "gather [] = Inr []"
| "gather (x # xs) =
     (case x of
        Inl e \<Rightarrow> Inl e
      | Inr v \<Rightarrow> (case gather xs of Inl e \<Rightarrow> Inl e | Inr vs \<Rightarrow> Inr (v # vs)))"

text \<open>Lines 118 and 119 of \<^verbatim>\<open>main\<close>: the list handed to \<^verbatim>\<open>print_results\<close>.\<close>

definition main :: "(nat \<Rightarrow> http_attempt) \<Rightarrow> net_exn + pydict list" where
  "main net = gather (map (check_server net) MCP_SERVERS)"

section \<open>Concrete environments\<close>

text \<open>
  A host on which the definitions can be run. \<^verbatim>\<open>sleep 60\<close> runs for 60 units;
  \<^verbatim>\<open>sleep 60 & exit 0\<close> exits at once with status 0 and leaves a job that holds the pipes for
  60 units; \<^verbatim>\<open>false\<close> exits with status 1; \<^verbatim>\<open>cat photo.jpg\<close> exits with status 0 after
  writing bytes that are not text; every other command exits at once with status 0,
  \<^verbatim>\<open>echo hello\<close> after printing its line. A directory that does not exist makes the launch
  fail, and a command that is not a string is refused.
\<close>

definition example_child :: "string \<Rightarrow> child" where
  "example_child s =
     \<lparr>runtime = Some (if s = ''sleep 60'' then 60 else 0),
      pipes_closed = Some (if s = ''sleep 60'' \<or> s = ''sleep 60 & exit 0'' then 60 else 0),
      returncode = (if s = ''false'' then 1 else 0),
      stdout =
        (if s = ''echo hello'' then Text (''hello'' @ [CHR 0x0A])
         else if s = ''cat photo.jpg'' then
           Undecodable (CHR 0x27 #
             ''utf-8' codec can't decode byte 0xff in position 0: invalid start byte'')
         else Text []),
      stderr = Text []\<rparr>"

definition example_env :: os_env where
  "example_env =
     \<lparr>getcwd = Inr ''/srv'',
      popen = (\<lambda>args cwd.
        if cwd = PStr ''/nonexistent'' then Inl ''[Errno 2] No such file or directory''
        else (case args of
                PStr s \<Rightarrow> Inr (example_child s)
              | _ \<Rightarrow> Inl ''expected str''))\<rparr>"

text \<open>The same host when the directory the server was started in has been removed.\<close>

definition example_env_removed_cwd :: os_env where
  "example_env_removed_cwd =
     \<lparr>getcwd = Inl ''[Errno 2] No such file or directory'',
      popen = popen example_env\<rparr>"

text \<open>
  A network in which the first four configured servers fail in the four ways the checker
  tells apart and the others answer.
\<close>

definition example_net :: "nat \<Rightarrow> http_attempt" where
  "example_net p =
     (if p = 13000 then RequestFails ConnectionRefusedError
      else if p = 13001 then RequestFails SocketTimeout
      else if p = 13002 then Responds 500 ''Internal Server Error'' NotJson
      else if p = 13003 then Responds 200 ''OK'' NotJson
      else Responds 200 ''OK'' (Body (PDict [(''status'', PStr ''ok'')])))"

section \<open>Properties of analyze_command\<close>

lemma suggest_length: "length (suggest command) \<le> 1"
  by (simp add: suggest_def)

lemma analyze_command_suggestions:
  "map_of (analyze_command self command context) ''suggestions''
     = Some (PList (map PStr (suggest command)))"
  by (simp add: analyze_command_def Let_def)

lemma analyze_command_risk_level:
  "map_of (analyze_command self command context) ''risk_level''
     = Some (PStr (if suggest command = [] then ''low'' else ''medium''))"
  by (simp add: analyze_command_def Let_def)

lemma suggest_first_match: "suggest command = take 1 (spec_all_matching command)"
  by (simp add: suggest_def spec_all_matching_def spec_rules_def)

text \<open>
  Claim C1, as the specification states it: for a command that matches more than one
  rule, \<^verbatim>\<open>analyze_command\<close> returns the suggestion texts of all matching rules. The command
  \<^verbatim>\<open>git push && sudo reboot\<close> matches the push rule and the sudo rule, and the result
  holds the push suggestion alone.
\<close>

theorem analyze_command_all_matching_counterexample:
  "spec_all_matching ''git push && sudo reboot''
     = [''Consider using 'git push --force-with-lease' for safer force pushes'',
        ''Consider if sudo is really necessary'']
   \<and> map_of (analyze_command init ''git push && sudo reboot'' (PDict [])) ''suggestions''
     = Some (PList
         [PStr ''Consider using 'git push --force-with-lease' for safer force pushes''])
   \<and> map_of (analyze_command init ''git push && sudo reboot'' (PDict [])) ''suggestions''
     \<noteq> Some (PList (map PStr (spec_all_matching ''git push && sudo reboot'')))"
  by (simp add: analyze_command_def Let_def suggest_def spec_all_matching_def spec_rules_def)

text \<open>
  Claim C1, amended: the suggestions of \<^verbatim>\<open>analyze_command\<close> are the suggestion text of the
  first rule that matches, in the order push, recursive forced delete, sudo, and nothing
  when no rule matches; the rules after the first match contribute nothing.
\<close>

theorem analyze_command_first_match:
  "map_of (analyze_command self command context) ''suggestions''
     = Some (PList (map PStr (take 1 (spec_all_matching command))))"
  by (simp only: analyze_command_suggestions suggest_first_match)

text \<open>
  Claim C3: for every command and context, the risk level of the analysis is \<^verbatim>\<open>low\<close>
  exactly when its list of suggestions is empty.
\<close>

theorem risk_level_low_iff_no_suggestions:
  "\<exists>xs r. map_of (analyze_command self command context) ''suggestions'' = Some (PList xs)
     \<and> map_of (analyze_command self command context) ''risk_level'' = Some (PStr r)
     \<and> (r = ''low'') = (xs = [])"
  by (simp add: analyze_command_suggestions analyze_command_risk_level)

text \<open>
  Claim C7: two calls of \<^verbatim>\<open>analyze_command\<close> with the same command and the same context
  return the same dictionary, whatever the server objects they are called on: the same
  echoed command, the same suggestions, the same risk level.
\<close>

theorem analyze_command_deterministic:
  assumes "command1 = command2" and "context1 = context2"
  shows "analyze_command self1 command1 context1 = analyze_command self2 command2 context2
    \<and> map_of (analyze_command self1 command1 context1) ''command'' = Some (PStr command2)
    \<and> map_of (analyze_command self1 command1 context1) ''suggestions''
        = map_of (analyze_command self2 command2 context2) ''suggestions''
    \<and> map_of (analyze_command self1 command1 context1) ''risk_level''
        = map_of (analyze_command self2 command2 context2) ''risk_level''"
  using assms by (simp add: analyze_command_def Let_def)

theorem analyze_command_deterministic_witness:
  "analyze_command init ''sudo ls'' (PDict [(''shell'', PStr ''bash'')])
     = analyze_command \<lparr>tools = []\<rparr> ''sudo ls'' (PDict [(''shell'', PStr ''bash'')])
   \<and> map_of (analyze_command init ''sudo ls'' (PDict [(''shell'', PStr ''bash'')])) ''command''
     = Some (PStr ''sudo ls'')
   \<and> map_of (analyze_command init ''sudo ls'' (PDict [(''shell'', PStr ''bash'')]))
        ''suggestions''
     = map_of (analyze_command \<lparr>tools = []\<rparr> ''sudo ls'' (PDict [(''shell'', PStr ''bash'')]))
        ''suggestions''
   \<and> map_of (analyze_command init ''sudo ls'' (PDict [(''shell'', PStr ''bash'')]))
        ''risk_level''
     = map_of (analyze_command \<lparr>tools = []\<rparr> ''sudo ls'' (PDict [(''shell'', PStr ''bash'')]))
        ''risk_level''"
  by (rule analyze_command_deterministic [OF refl refl])

text \<open>
  Claim C9: for every command and context, the list of suggestions of the analysis has
  at most one element.
\<close>

theorem at_most_one_suggestion:
  "\<exists>xs. map_of (analyze_command self command context) ''suggestions'' = Some (PList xs)
        \<and> length xs \<le> 1"
  using suggest_length [of command] by (simp add: analyze_command_suggestions)

text \<open>
  Claim C10: for every command and context, the risk level of the analysis is \<^verbatim>\<open>low\<close> or
  \<^verbatim>\<open>medium\<close> and never \<^verbatim>\<open>high\<close>; a command that matches the recursive forced delete rule
  gets \<^verbatim>\<open>medium\<close>.
\<close>

theorem risk_level_low_or_medium:
  "(map_of (analyze_command self command context) ''risk_level'' = Some (PStr ''low'')
      \<or> map_of (analyze_command self command context) ''risk_level'' = Some (PStr ''medium''))
   \<and> map_of (analyze_command self command context) ''risk_level'' \<noteq> Some (PStr ''high'')
   \<and> (str_in ''rm'' command \<and> str_in ''-rf'' command \<longrightarrow>
        map_of (analyze_command self command context) ''risk_level'' = Some (PStr ''medium''))"
  by (simp add: analyze_command_risk_level suggest_def)

theorem risk_level_low_or_medium_witness:
  "str_in ''rm'' ''rm -rf /tmp/foo'' \<and> str_in ''-rf'' ''rm -rf /tmp/foo''
   \<and> map_of (analyze_command init ''rm -rf /tmp/foo'' PNone) ''risk_level''
       = Some (PStr ''medium'')
   \<and> map_of (analyze_command init ''rm -rf /tmp/foo'' PNone) ''risk_level''
       \<noteq> Some (PStr ''high'')"
  using risk_level_low_or_medium [of init "''rm -rf /tmp/foo''" PNone]
  by simp

section \<open>Properties of execute_command\<close>

lemma execute_command_returns: "\<exists>r. execute_command self env command cwd = Inr r"
  by (simp add: execute_command_def split: sum.split exn.split)

lemma execute_command_completed:
  assumes "working_directory env cwd = Inr dir"
    and "popen env command dir = Inr p"
    and "\<not> exceeds p 30"
    and "stdout p = Text out" and "stderr p = Text err"
  shows "execute_command self env command cwd =
           Inr [(''success'', PBool (returncode p = 0)),
                (''output'', PStr out),
                (''error'', PStr err),
                (''return_code'', PInt (returncode p))]"
  using assms by (simp add: execute_command_def execute_try_def subprocess_run_def)

lemma execute_command_undecodable:
  assumes "working_directory env cwd = Inr dir"
    and "popen env command dir = Inr p"
    and "\<not> exceeds p 30"
    and "stdout p = Undecodable msg \<or> (\<exists>out. stdout p = Text out) \<and> stderr p = Undecodable msg"
  shows "execute_command self env command cwd =
           Inr [(''success'', PBool False), (''error'', PStr msg)]"
  using assms by (auto simp add: execute_command_def execute_try_def subprocess_run_def)

lemma execute_command_timed_out:
  assumes "working_directory env cwd = Inr dir"
    and "popen env command dir = Inr p"
    and "exceeds p 30"
  shows "execute_command self env command cwd =
           Inr [(''success'', PBool False), (''error'', PStr ''Command timed out'')]"
  using assms by (simp add: execute_command_def execute_try_def subprocess_run_def)

lemma execute_command_launch_failure:
  assumes "working_directory env cwd = Inr dir"
    and "popen env command dir = Inl msg"
  shows "execute_command self env command cwd =
           Inr [(''success'', PBool False), (''error'', PStr msg)]"
  using assms by (simp add: execute_command_def execute_try_def subprocess_run_def)

lemma execute_command_getcwd_failure:
  assumes "\<not> truthy cwd" and "getcwd env = Inl msg"
  shows "execute_command self env command cwd =
           Inr [(''success'', PBool False), (''error'', PStr msg)]"
  using assms by (simp add: execute_command_def execute_try_def working_directory_def)


lemma example_working_directory: "working_directory example_env PNone = Inr (PStr ''/srv'')"
  by (simp add: working_directory_def example_env_def)

lemma example_popen:
  "popen example_env (PStr s) (PStr ''/srv'') = Inr (example_child s)"
  by (simp add: example_env_def)




text \<open>
  Claim C4: when the child process of a command is still running after the bound of 30
  units, the result of \<^verbatim>\<open>execute_command\<close> has \<^verbatim>\<open>success\<close> false, no \<^verbatim>\<open>return_code\<close> key, and
  an \<^verbatim>\<open>error\<close> that names the timeout.
\<close>

theorem execute_command_timeout:
  assumes "working_directory env cwd = Inr dir"
    and "popen env command dir = Inr p"
    and "exceeds p 30"
  shows "\<exists>r. execute_command self env command cwd = Inr r
           \<and> r = [(''success'', PBool False), (''error'', PStr ''Command timed out'')]
           \<and> map_of r ''success'' = Some (PBool False)
           \<and> map_of r ''return_code'' = None
           \<and> map_of r ''error'' = Some (PStr ''Command timed out'')"
  using assms by (simp add: execute_command_timed_out)

theorem execute_command_timeout_witness:
  "working_directory example_env PNone = Inr (PStr ''/srv'')
   \<and> popen example_env (PStr ''sleep 60'') (PStr ''/srv'') = Inr (example_child ''sleep 60'')
   \<and> runtime (example_child ''sleep 60'') = Some 60
   \<and> exceeds (example_child ''sleep 60'') 30
   \<and> execute_command init example_env (PStr ''sleep 60'') PNone
       = Inr [(''success'', PBool False), (''error'', PStr ''Command timed out'')]"
proof -
  have t: "runtime (example_child ''sleep 60'') = Some 60"
    by (simp add: example_child_def)
  then have x: "exceeds (example_child ''sleep 60'') 30"
    by (simp add: exceeds_def)
  from execute_command_timeout [OF example_working_directory example_popen x, of init]
  have "execute_command init example_env (PStr ''sleep 60'') PNone
       = Inr [(''success'', PBool False), (''error'', PStr ''Command timed out'')]"
    by auto
  with example_working_directory example_popen [of "''sleep 60''"] t x show ?thesis
    by blast
qed

lemma execute_command_success_only_if:
  assumes "execute_command self env command cwd = Inr r"
    and "map_of r ''success'' = Some (PBool True)"
  shows "\<exists>dir p out err. working_directory env cwd = Inr dir \<and> popen env command dir = Inr p
           \<and> \<not> exceeds p 30 \<and> returncode p = 0
           \<and> stdout p = Text out \<and> stderr p = Text err"
proof (cases "working_directory env cwd")
  case (Inl e)
  with assms show ?thesis
    by (cases e) (auto simp add: execute_command_def execute_try_def)
next
  case dir: (Inr dir)
  show ?thesis
  proof (cases "popen env command dir")
    case (Inl msg)
    with dir assms show ?thesis
      by (auto simp add: execute_command_launch_failure)
  next
    case p: (Inr p)
    show ?thesis
    proof (cases "exceeds p 30")
      case True
      with dir p assms show ?thesis
        by (auto simp add: execute_command_timed_out)
    next
      case False
      with dir p assms show ?thesis
        by (cases "stdout p"; cases "stderr p")
           (auto simp add: execute_command_completed execute_command_undecodable)
    qed
  qed
qed

text \<open>
  Claim C6: for every command and working directory, no exception leaves
  \<^verbatim>\<open>execute_command\<close>: it returns a dictionary with a \<^verbatim>\<open>success\<close> flag. When the process
  cannot be launched, because the launch itself fails or because the working directory
  cannot be determined, the flag is false and \<^verbatim>\<open>error\<close> is the message of the failure; the
  flag is true only for a process that was launched and ran to its end with status 0.
\<close>

theorem execute_command_never_raises:
  "(\<exists>r b. execute_command self env command cwd = Inr r
          \<and> map_of r ''success'' = Some (PBool b))
   \<and> (working_directory env cwd = Inr dir \<and> popen env command dir = Inl msg \<longrightarrow>
        execute_command self env command cwd
          = Inr [(''success'', PBool False), (''error'', PStr msg)])
   \<and> (\<not> truthy cwd' \<and> getcwd env = Inl msg' \<longrightarrow>
        execute_command self env command cwd'
          = Inr [(''success'', PBool False), (''error'', PStr msg')])
   \<and> (execute_command self env command'' cwd'' = Inr r''
        \<and> map_of r'' ''success'' = Some (PBool True) \<longrightarrow>
        (\<exists>dir p out err. working_directory env cwd'' = Inr dir
           \<and> popen env command'' dir = Inr p
           \<and> \<not> exceeds p 30 \<and> returncode p = 0
           \<and> stdout p = Text out \<and> stderr p = Text err))"
proof (intro conjI impI)
  show "\<exists>r b. execute_command self env command cwd = Inr r
          \<and> map_of r ''success'' = Some (PBool b)"
    by (auto simp add: execute_command_def execute_try_def
          split: sum.split exn.split completed_process.split)
next
  assume "working_directory env cwd = Inr dir \<and> popen env command dir = Inl msg"
  then show "execute_command self env command cwd
          = Inr [(''success'', PBool False), (''error'', PStr msg)]"
    by (simp add: execute_command_launch_failure)
next
  assume "\<not> truthy cwd' \<and> getcwd env = Inl msg'"
  then show "execute_command self env command cwd'
          = Inr [(''success'', PBool False), (''error'', PStr msg')]"
    by (simp add: execute_command_getcwd_failure)
next
  assume "execute_command self env command'' cwd'' = Inr r''
        \<and> map_of r'' ''success'' = Some (PBool True)"
  then show "\<exists>dir p out err. working_directory env cwd'' = Inr dir
           \<and> popen env command'' dir = Inr p
           \<and> \<not> exceeds p 30 \<and> returncode p = 0
           \<and> stdout p = Text out \<and> stderr p = Text err"
    using execute_command_success_only_if by blast
qed

theorem execute_command_never_raises_witness:
  "working_directory example_env_removed_cwd (PStr ''/nonexistent'')
     = Inr (PStr ''/nonexistent'')
   \<and> popen example_env_removed_cwd (PStr ''ls'') (PStr ''/nonexistent'')
       = Inl ''[Errno 2] No such file or directory''
   \<and> execute_command init example_env_removed_cwd (PStr ''ls'') (PStr ''/nonexistent'')
       = Inr [(''success'', PBool False),
              (''error'', PStr ''[Errno 2] No such file or directory'')]
   \<and> \<not> truthy PNone
   \<and> getcwd example_env_removed_cwd = Inl ''[Errno 2] No such file or directory''
   \<and> execute_command init example_env_removed_cwd (PStr ''ls'') PNone
       = Inr [(''success'', PBool False),
              (''error'', PStr ''[Errno 2] No such file or directory'')]
   \<and> execute_command init example_env_removed_cwd (PStr ''ls'') (PStr ''/home'')
       = Inr [(''success'', PBool True), (''output'', PStr []), (''error'', PStr []),
              (''return_code'', PInt 0)]
   \<and> (\<exists>dir p out err.
         working_directory example_env_removed_cwd (PStr ''/home'') = Inr dir
         \<and> popen example_env_removed_cwd (PStr ''ls'') dir = Inr p
         \<and> \<not> exceeds p 30 \<and> returncode p = 0
         \<and> stdout p = Text out \<and> stderr p = Text err)"
proof -
  have w: "working_directory example_env_removed_cwd (PStr ''/nonexistent'')
             = Inr (PStr ''/nonexistent'')"
    by (simp add: working_directory_def)
  have p: "popen example_env_removed_cwd (PStr ''ls'') (PStr ''/nonexistent'')
       = Inl ''[Errno 2] No such file or directory''"
    by (simp add: example_env_removed_cwd_def example_env_def)
  have n: "\<not> truthy PNone"
    by simp
  have g: "getcwd example_env_removed_cwd = Inl ''[Errno 2] No such file or directory''"
    by (simp add: example_env_removed_cwd_def)
  have x: "execute_command init example_env_removed_cwd (PStr ''ls'') (PStr ''/home'')
       = Inr [(''success'', PBool True), (''output'', PStr []), (''error'', PStr []),
              (''return_code'', PInt 0)]"
    by (simp add: execute_command_def execute_try_def subprocess_run_def
          working_directory_def exceeds_def example_env_removed_cwd_def example_env_def
          example_child_def)
  have s: "map_of [(''success'', PBool True), (''output'', PStr []), (''error'', PStr []),
              (''return_code'', PInt 0)] ''success'' = Some (PBool True)"
    by simp
  note r = execute_command_never_raises
         [of init example_env_removed_cwd "PStr ''ls''" "PStr ''/nonexistent''"
             "PStr ''/nonexistent''" "''[Errno 2] No such file or directory''"
             PNone "''[Errno 2] No such file or directory''"
             "PStr ''ls''" "PStr ''/home''"
             "[(''success'', PBool True), (''output'', PStr []), (''error'', PStr []),
               (''return_code'', PInt 0)]"]
  from r w p
  have a: "execute_command init example_env_removed_cwd (PStr ''ls'') (PStr ''/nonexistent'')
       = Inr [(''success'', PBool False),
              (''error'', PStr ''[Errno 2] No such file or directory'')]"
    by blast
  from r n g
  have b: "execute_command init example_env_removed_cwd (PStr ''ls'') PNone
       = Inr [(''success'', PBool False),
              (''error'', PStr ''[Errno 2] No such file or directory'')]"
    by blast
  from r x s
  have c: "\<exists>dir p out err.
         working_directory example_env_removed_cwd (PStr ''/home'') = Inr dir
         \<and> popen example_env_removed_cwd (PStr ''ls'') dir = Inr p
         \<and> \<not> exceeds p 30 \<and> returncode p = 0
         \<and> stdout p = Text out \<and> stderr p = Text err"
    by blast
  from w p a n g b x c show ?thesis
    by (intro conjI)
qed

section \<open>Properties of do_POST\<close>




section \<open>Properties of the status checker\<close>

lemma check_server_returns: "\<exists>r. check_server net server = Inr r"
  by (simp add: check_server_def split: sum.split net_exn.split)

lemma gather_all_returned:
  assumes "\<forall>x \<in> set xs. \<exists>v. f x = Inr v"
  shows "\<exists>vs. gather (map f xs) = Inr vs \<and> length vs = length xs
              \<and> (\<forall>i < length xs. f (xs ! i) = Inr (vs ! i))"
  using assms
proof (induction xs)
  case Nil
  then show ?case by simp
next
  case (Cons x xs)
  then obtain v where v: "f x = Inr v"
    by auto
  from Cons obtain vs where vs: "gather (map f xs) = Inr vs" "length vs = length xs"
      "\<forall>i < length xs. f (xs ! i) = Inr (vs ! i)"
    by auto
  have "\<forall>i < length (x # xs). f ((x # xs) ! i) = Inr ((v # vs) ! i)"
  proof (intro allI impI)
    fix i assume "i < length (x # xs)"
    with v vs(3) show "f ((x # xs) ! i) = Inr ((v # vs) ! i)"
      by (cases i) simp_all
  qed
  with v vs(1,2) show ?case
    by simp
qed

lemma http_message_not_json_message:
  "''HTTP '' @ digits @ '' '' @ reason \<noteq> ''Invalid JSON response''"
  by simp

text \<open>
  Claim C8, as the specification states it: the four failure causes are mapped to four
  distinct status categories. A response with status 500 and a response with status 200
  whose body is not JSON are both reported with the status \<^verbatim>\<open>error\<close>.
\<close>

theorem check_server_status_counterexample:
  "check_server (\<lambda>p. Responds 500 ''Internal Server Error'' NotJson)
       \<lparr>name = ''Terminal'', port = 13002\<rparr>
     = Inr [(''name'', PStr ''Terminal''), (''status'', PStr ''error''),
            (''error'', PStr ''HTTP 500 Internal Server Error'')]
   \<and> check_server (\<lambda>p. Responds 200 ''OK'' NotJson) \<lparr>name = ''Terminal'', port = 13002\<rparr>
     = Inr [(''name'', PStr ''Terminal''), (''status'', PStr ''error''),
            (''error'', PStr ''Invalid JSON response'')]"
proof -
  have "str_nat 500 = ''500''"
    by (simp add: str_nat.simps digit_def)
  then show ?thesis
    by (simp add: check_server_def check_try_def)
qed

text \<open>
  Claim C8, amended: for every network and every server, the checker reports a refused
  connection with the status \<^verbatim>\<open>down\<close>, a request that timed out with the status \<^verbatim>\<open>timeout\<close>,
  and both a response whose status is not 200 and a 200 response whose body is not JSON
  with the same status \<^verbatim>\<open>error\<close>, told apart by their \<^verbatim>\<open>error\<close> messages only. Whatever the
  network does, no exception leaves the check of one server, and the batch returns one
  report for each configured server, in order, each the report of its own check.
\<close>

theorem check_server_reports:
  "(net (port s1) = RequestFails ConnectionRefusedError \<longrightarrow>
      check_server net s1
        = Inr [(''name'', PStr (name s1)), (''status'', PStr ''down''),
               (''error'', PStr ''Connection refused'')])
   \<and> (net (port s2) = RequestFails SocketTimeout \<longrightarrow>
      check_server net s2
        = Inr [(''name'', PStr (name s2)), (''status'', PStr ''timeout''),
               (''error'', PStr ''Request timed out'')])
   \<and> (net (port s3) = Responds status reason body \<and> status \<noteq> 200 \<longrightarrow>
      check_server net s3
        = Inr [(''name'', PStr (name s3)), (''status'', PStr ''error''),
               (''error'', PStr (''HTTP '' @ str_nat status @ '' '' @ reason))])
   \<and> (net (port s4) = Responds 200 reason' NotJson \<longrightarrow>
      check_server net s4
        = Inr [(''name'', PStr (name s4)), (''status'', PStr ''error''),
               (''error'', PStr ''Invalid JSON response'')])
   \<and> ''HTTP '' @ str_nat status @ '' '' @ reason \<noteq> ''Invalid JSON response''
   \<and> (\<exists>r st. check_server net s = Inr r \<and> map_of r ''name'' = Some (PStr (name s))
         \<and> map_of r ''status'' = Some (PStr st))
   \<and> (\<exists>rs. main net = Inr rs \<and> length rs = length MCP_SERVERS
         \<and> (\<forall>i < length MCP_SERVERS. check_server net (MCP_SERVERS ! i) = Inr (rs ! i)))"
proof (intro conjI impI)
  assume "net (port s1) = RequestFails ConnectionRefusedError"
  then show "check_server net s1
        = Inr [(''name'', PStr (name s1)), (''status'', PStr ''down''),
               (''error'', PStr ''Connection refused'')]"
    by (simp add: check_server_def check_try_def)
next
  assume "net (port s2) = RequestFails SocketTimeout"
  then show "check_server net s2
        = Inr [(''name'', PStr (name s2)), (''status'', PStr ''timeout''),
               (''error'', PStr ''Request timed out'')]"
    by (simp add: check_server_def check_try_def)
next
  assume "net (port s3) = Responds status reason body \<and> status \<noteq> 200"
  then show "check_server net s3
        = Inr [(''name'', PStr (name s3)), (''status'', PStr ''error''),
               (''error'', PStr (''HTTP '' @ str_nat status @ '' '' @ reason))]"
    by (simp add: check_server_def check_try_def)
next
  assume "net (port s4) = Responds 200 reason' NotJson"
  then show "check_server net s4
        = Inr [(''name'', PStr (name s4)), (''status'', PStr ''error''),
               (''error'', PStr ''Invalid JSON response'')]"
    by (simp add: check_server_def check_try_def)
next
  show "''HTTP '' @ str_nat status @ '' '' @ reason \<noteq> ''Invalid JSON response''"
    by (rule http_message_not_json_message)
next
  show "\<exists>r st. check_server net s = Inr r \<and> map_of r ''name'' = Some (PStr (name s))
         \<and> map_of r ''status'' = Some (PStr st)"
    by (auto simp add: check_server_def check_try_def
          split: sum.split net_exn.split http_attempt.split read_result.split)
next
  have "\<forall>s \<in> set MCP_SERVERS. \<exists>v. check_server net s = Inr v"
    by (simp add: check_server_returns)
  from gather_all_returned [OF this]
  show "\<exists>rs. main net = Inr rs \<and> length rs = length MCP_SERVERS
              \<and> (\<forall>i < length MCP_SERVERS. check_server net (MCP_SERVERS ! i) = Inr (rs ! i))"
    by (simp add: main_def)
qed

theorem check_server_reports_witness:
  "example_net 13000 = RequestFails ConnectionRefusedError
   \<and> example_net 13001 = RequestFails SocketTimeout
   \<and> example_net 13002 = Responds 500 ''Internal Server Error'' NotJson
   \<and> example_net 13003 = Responds 200 ''OK'' NotJson
   \<and> check_server example_net \<lparr>name = ''Memory'', port = 13000\<rparr>
       = Inr [(''name'', PStr ''Memory''), (''status'', PStr ''down''),
              (''error'', PStr ''Connection refused'')]
   \<and> check_server example_net \<lparr>name = ''Filesystem'', port = 13001\<rparr>
       = Inr [(''name'', PStr ''Filesystem''), (''status'', PStr ''timeout''),
              (''error'', PStr ''Request timed out'')]
   \<and> check_server example_net \<lparr>name = ''Terminal'', port = 13002\<rparr>
       = Inr [(''name'', PStr ''Terminal''), (''status'', PStr ''error''),
              (''error'', PStr ''HTTP 500 Internal Server Error'')]
   \<and> check_server example_net \<lparr>name = ''Kubectl'', port = 13003\<rparr>
       = Inr [(''name'', PStr ''Kubectl''), (''status'', PStr ''error''),
              (''error'', PStr ''Invalid JSON response'')]
   \<and> (\<exists>rs. main example_net = Inr rs \<and> length rs = 6)"
proof -
  have a: "example_net (port \<lparr>name = ''Memory'', port = 13000\<rparr>)
             = RequestFails ConnectionRefusedError"
    by (simp add: example_net_def)
  have b: "example_net (port \<lparr>name = ''Filesystem'', port = 13001\<rparr>)
             = RequestFails SocketTimeout"
    by (simp add: example_net_def)
  have c: "example_net (port \<lparr>name = ''Terminal'', port = 13002\<rparr>)
             = Responds 500 ''Internal Server Error'' NotJson"
    by (simp add: example_net_def)
  have d: "(500::nat) \<noteq> 200"
    by simp
  have e: "example_net (port \<lparr>name = ''Kubectl'', port = 13003\<rparr>)
             = Responds 200 ''OK'' NotJson"
    by (simp add: example_net_def)
  have n: "str_nat 500 = ''500''"
    by (simp add: str_nat.simps digit_def)
  have l: "length MCP_SERVERS = 6"
    by (simp add: MCP_SERVERS_def)
  from check_server_reports
         [of example_net "\<lparr>name = ''Memory'', port = 13000\<rparr>"
             "\<lparr>name = ''Filesystem'', port = 13001\<rparr>"
             "\<lparr>name = ''Terminal'', port = 13002\<rparr>"
             500 "''Internal Server Error''" NotJson
             "\<lparr>name = ''Kubectl'', port = 13003\<rparr>" "''OK''"]
       a b c d e n l
  show ?thesis
    by auto
qed

end
